theory Spec2Isabelle
  imports Main "HOL-Library.Product_Lexorder"
begin

section \<open>Python strings\<close>

text \<open>
  A Python \<open>str\<close> is a sequence of Unicode code points, so it is modelled as a list of
  natural numbers. \<open>pystr\<close> turns an ASCII literal into such a sequence.
\<close>

type_synonym pystr = "nat list"

definition pystr :: "string \<Rightarrow> pystr" where
  "pystr s = map of_char s"

text \<open>
  The code points of the digit zero of every block of Unicode decimal digits (general
  category Nd, Unicode 14.0 as shipped with CPython 3.11). Each block holds the ten digits
  0..9 in order. Later Unicode versions only add blocks.
\<close>

definition unicode_decimal_zeros :: "nat list" where
  "unicode_decimal_zeros =
    [48, 1632, 1776, 1984, 2406, 2534, 2662, 2790, 2918, 3046, 3174, 3302, 3430, 3558,
     3664, 3792, 3872, 4160, 4240, 6112, 6160, 6470, 6608, 6784, 6800, 6992, 7088, 7232,
     7248, 42528, 43216, 43264, 43472, 43504, 43600, 44016, 65296, 66720, 68912, 69734,
     69872, 69942, 70096, 70384, 70736, 70864, 71248, 71360, 71472, 71904, 72016, 72784,
     73040, 73120, 92768, 92864, 93008, 120782, 120792, 120802, 120812, 120822, 123200,
     123632, 125264, 130032]"

text \<open>
  The value of a decimal digit, as \<open>int()\<close> reads it; \<open>None\<close> when the code point is
  not a decimal digit. The regular expression class \<open>\d\<close> of a \<open>str\<close> pattern (no
  \<open>re.ASCII\<close> flag) matches exactly the code points with a digit value.
\<close>

definition digit_value :: "nat \<Rightarrow> nat option" where
  "digit_value c =
     map_option (\<lambda>z. c - z) (find (\<lambda>z. z \<le> c \<and> c \<le> z + 9) unicode_decimal_zeros)"

definition re_digit :: "nat \<Rightarrow> bool" where
  "re_digit c = (digit_value c \<noteq> None)"

text \<open>The ASCII digits \<open>0\<close> to \<open>9\<close>.\<close>

definition ascii_digit :: "nat \<Rightarrow> bool" where
  "ascii_digit c = (48 \<le> c \<and> c \<le> 57)"

text \<open>The character class \<open>[lo-hi]\<close> over ASCII digits: \<open>lo\<close> and \<open>hi\<close> are digit values.\<close>

definition in_class :: "nat \<Rightarrow> nat \<Rightarrow> nat \<Rightarrow> bool" where
  "in_class lo hi c = (48 + lo \<le> c \<and> c \<le> 48 + hi)"

text \<open>
  The code points that \<open>str.isspace\<close> accepts; \<open>str.strip()\<close> without an argument
  removes them from both ends.
\<close>

definition is_space :: "nat \<Rightarrow> bool" where
  "is_space c =
     ((9 \<le> c \<and> c \<le> 13) \<or> (28 \<le> c \<and> c \<le> 32) \<or> c = 133 \<or> c = 160 \<or> c = 5760
      \<or> (8192 \<le> c \<and> c \<le> 8202) \<or> c = 8232 \<or> c = 8233 \<or> c = 8239 \<or> c = 8287
      \<or> c = 12288)"

definition strip :: "pystr \<Rightarrow> pystr" where
  "strip s = rev (dropWhile is_space (rev (dropWhile is_space s)))"

section \<open>Calendar dates and \<open>datetime.strptime(d, "%Y-%m-%d").date()\<close>\<close>

text \<open>
  A \<open>datetime.date\<close> is the triple (year, month, day); Python orders dates as it orders
  these triples, which is the lexicographic order of the product type.
\<close>

type_synonym date = "nat \<times> nat \<times> nat"

datatype exn = ValueError | ClientError | UpdateFailed | OtherError

definition is_leap :: "nat \<Rightarrow> bool" where
  "is_leap y = (y mod 4 = 0 \<and> (y mod 100 \<noteq> 0 \<or> y mod 400 = 0))"

definition days_in_month :: "nat \<Rightarrow> nat \<Rightarrow> nat" where
  "days_in_month y m =
     (if m = 2 then (if is_leap y then 29 else 28)
      else if m = 4 \<or> m = 6 \<or> m = 9 \<or> m = 11 then 30 else 31)"

text \<open>
  The format \<open>%Y-%m-%d\<close> compiles to the regular expression
  \<^verbatim>\<open>(?P<Y>\d\d\d\d)-(?P<m>1[0-2]|0[1-9]|[1-9])-(?P<d>3[0-1]|[1-2]\d|0[1-9]|[1-9]| [1-9])\<close>.
  Each group is modelled by the list of its matches at the front of the input, in the
  order in which the backtracking matcher tries the alternatives: a match is the value
  read and the rest of the input.
\<close>

fun year_alts :: "pystr \<Rightarrow> (nat \<times> pystr) list" where
  "year_alts (a # b # c # d # r) =
     (case (digit_value a, digit_value b, digit_value c, digit_value d) of
        (Some i, Some j, Some k, Some l) \<Rightarrow> [(1000 * i + 100 * j + 10 * k + l, r)]
      | _ \<Rightarrow> [])"
| "year_alts _ = []"

fun lit :: "nat \<Rightarrow> pystr \<Rightarrow> pystr list" where
  "lit ch (x # r) = (if x = ch then [r] else [])"
| "lit ch [] = []"

fun two_chars :: "(nat \<Rightarrow> bool) \<Rightarrow> (nat \<Rightarrow> nat option) \<Rightarrow> nat \<Rightarrow> pystr \<Rightarrow> (nat \<times> pystr) list" where
  "two_chars p second tens (a # b # r) =
     (if p a then (case second b of Some j \<Rightarrow> [(tens + j, r)] | None \<Rightarrow> []) else [])"
| "two_chars p second tens _ = []"

definition class_value :: "nat \<Rightarrow> nat \<Rightarrow> nat \<Rightarrow> nat option" where
  "class_value lo hi c = (if in_class lo hi c then Some (c - 48) else None)"

fun one_char :: "pystr \<Rightarrow> (nat \<times> pystr) list" where
  "one_char (a # r) = (if in_class 1 9 a then [(a - 48, r)] else [])"
| "one_char [] = []"

definition month_alts :: "pystr \<Rightarrow> (nat \<times> pystr) list" where
  "month_alts s =
     two_chars (in_class 1 1) (class_value 0 2) 10 s
     @ two_chars (in_class 0 0) (class_value 1 9) 0 s
     @ one_char s"

definition day_alts :: "pystr \<Rightarrow> (nat \<times> pystr) list" where
  "day_alts s =
     two_chars (in_class 3 3) (class_value 0 1) 30 s
     @ two_chars (in_class 1 1) digit_value 10 s
     @ two_chars (in_class 2 2) digit_value 20 s
     @ two_chars (in_class 0 0) (class_value 1 9) 0 s
     @ one_char s
     @ two_chars (\<lambda>c. c = 32) (class_value 1 9) 0 s"

definition format_matches :: "pystr \<Rightarrow> (nat \<times> nat \<times> nat \<times> pystr) list" where
  "format_matches s =
     [(y, m, d, r5). (y, r1) \<leftarrow> year_alts s, r2 \<leftarrow> lit 45 r1, (m, r3) \<leftarrow> month_alts r2,
                     r4 \<leftarrow> lit 45 r3, (d, r5) \<leftarrow> day_alts r4]"

text \<open>
  \<open>strptime\<close> takes the first match of the expression at the start of the string, raises
  \<open>ValueError\<close> when there is none or when input remains after it, and then builds the
  date, which raises \<open>ValueError\<close> for year 0 and for a day the month does not have.
\<close>

definition strptime :: "pystr \<Rightarrow> exn + date" where
  "strptime s =
     (case format_matches s of
        [] \<Rightarrow> Inl ValueError
      | (y, m, d, r) # _ \<Rightarrow>
          if r \<noteq> [] then Inl ValueError
          else if y < 1 \<or> days_in_month y m < d then Inl ValueError
          else Inr (y, m, d))"

section \<open>const.py\<close>

text \<open>
  A \<open>timedelta\<close> is a whole number of microseconds, and a naive \<open>datetime\<close> is the
  number of microseconds since a fixed origin, so that the difference of two datetimes is
  a \<open>timedelta\<close>.
\<close>

type_synonym timedelta = int
type_synonym datetime = int

definition seconds :: "int \<Rightarrow> timedelta" where
  "seconds n = n * 1000000"

text \<open>\<open>int(td.total_seconds())\<close>: the whole seconds of a duration, truncated towards zero.\<close>

definition int_total_seconds :: "timedelta \<Rightarrow> int" where
  "int_total_seconds td = (if 0 \<le> td then td div 1000000 else - ((- td) div 1000000))"

definition DEFAULT_UPDATE_INTERVAL :: timedelta where
  "DEFAULT_UPDATE_INTERVAL = seconds (12 * 3600)"

definition INITIAL_RANDOM_OFFSET_MAX :: timedelta where
  "INITIAL_RANDOM_OFFSET_MAX = seconds (30 * 60)"

definition UPDATE_JITTER_MAX :: timedelta where
  "UPDATE_JITTER_MAX = seconds (2 * 60)"

text \<open>
  Modelled from the spec: \<open>RETRY_UPDATE_INTERVAL\<close> is imported by
  \<open>posti_delivery_dates/coordinator.py\<close> from \<open>const.py\<close>, but the \<open>const.py\<close> at hand does
  not define it. The spec gives the retry interval as fixed, strictly less than the base
  interval, with the reference value of one hour.
\<close>

definition RETRY_UPDATE_INTERVAL :: timedelta where
  "RETRY_UPDATE_INTERVAL = seconds 3600"

section \<open>The cached snapshot and the coordinator\<close>

text \<open>
  The dictionary held in \<open>coordinator.data\<close>. Every reader uses \<open>.get\<close>, so a missing
  key and a key bound to \<open>None\<close> read the same: \<open>last_updated\<close> and
  \<open>last_delivery_date\<close> are optional fields.
\<close>

record snapshot =
  delivery_dates :: "pystr list"
  last_updated :: "datetime option"
  last_delivery_date :: "pystr option"

text \<open>
  The fields of \<open>PostiDeliveryCoordinator\<close>. \<open>update_interval\<close>, \<open>data\<close> and
  \<open>last_update_success\<close> are the attributes of the base class \<open>DataUpdateCoordinator\<close>
  that this code reads and writes.
\<close>

record coordinator =
  postal_code :: pystr
  first_update :: bool
  skip_first_update :: bool
  update_interval :: timedelta
  data :: "snapshot option"
  last_update_success :: bool

text \<open>
  The \<open>initial_data\<close> dictionary handed over by the config flow. Its \<open>last_updated\<close>
  entry is an ISO string written by \<open>datetime.now().isoformat()\<close>; the model carries the
  datetime that \<open>datetime.fromisoformat\<close> reads back from it.
\<close>

record initial_data =
  seed_delivery_dates :: "pystr list option"
  seed_last_updated :: datetime

definition init_coordinator :: "pystr \<Rightarrow> initial_data option \<Rightarrow> coordinator" where
  "init_coordinator code seed =
     (let c = \<lparr>postal_code = code, first_update = True, skip_first_update = False,
               update_interval = DEFAULT_UPDATE_INTERVAL, data = None,
               last_update_success = True\<rparr>
      in case seed of
           None \<Rightarrow> c
         | Some i \<Rightarrow>
             c\<lparr>data := Some \<lparr>delivery_dates =
                                (case seed_delivery_dates i of None \<Rightarrow> [] | Some ds \<Rightarrow> ds),
                              last_updated = Some (seed_last_updated i),
                              last_delivery_date = None\<rparr>,
               skip_first_update := True\<rparr>)"

subsection \<open>The list comprehension over the delivery dates\<close>

text \<open>
  \<^verbatim>\<open>[d for d in dates if datetime.strptime(d, "%Y-%m-%d").date() >= today]\<close>
  parses the entries from left to right; the first entry that \<open>strptime\<close> rejects raises
  \<open>ValueError\<close> out of the comprehension.
\<close>

fun future_dates :: "date \<Rightarrow> pystr list \<Rightarrow> exn + pystr list" where
  "future_dates t [] = Inr []"
| "future_dates t (d # ds) =
     (case strptime d of
        Inl e \<Rightarrow> Inl e
      | Inr dt \<Rightarrow>
          (case future_dates t ds of
             Inl e \<Rightarrow> Inl e
           | Inr r \<Rightarrow> Inr (if t \<le> dt then d # r else r)))"

text \<open>\<open>xs[0] if xs else None\<close>\<close>

definition first_or_none :: "'a list \<Rightarrow> 'a option" where
  "first_or_none xs = (case xs of [] \<Rightarrow> None | x # _ \<Rightarrow> Some x)"

subsection \<open>\<open>_check_last_delivery\<close> and \<open>_is_data_stale\<close>\<close>

definition check_last_delivery :: "date \<Rightarrow> coordinator \<Rightarrow> exn + pystr option" where
  "check_last_delivery t c =
     (case data c of
        None \<Rightarrow> Inr None
      | Some s \<Rightarrow>
          if delivery_dates s = [] then Inr (last_delivery_date s)
          else
            (case future_dates t (delivery_dates s) of
               Inl e \<Rightarrow> Inl e
             | Inr prev_future_dates \<Rightarrow>
                 (case first_or_none prev_future_dates of
                    None \<Rightarrow> Inr (last_delivery_date s)
                  | Some prev_next_delivery \<Rightarrow>
                      if prev_next_delivery = [] then Inr (last_delivery_date s)
                      else
                        (case strptime prev_next_delivery of
                           Inl e \<Rightarrow> Inl e
                         | Inr prev_delivery_date \<Rightarrow>
                             if prev_delivery_date < t then Inr (Some prev_next_delivery)
                             else Inr (last_delivery_date s)))))"

definition is_data_stale :: "datetime \<Rightarrow> coordinator \<Rightarrow> bool" where
  "is_data_stale now c =
     (case data c of
        None \<Rightarrow> True
      | Some s \<Rightarrow>
          (case last_updated s of
             None \<Rightarrow> True
           | Some t \<Rightarrow> now - t > DEFAULT_UPDATE_INTERVAL))"

subsection \<open>The remote endpoint\<close>

text \<open>
  What one \<open>session.get\<close> can bring back: an \<open>aiohttp.ClientError\<close> (raised by the
  request or while the response is read), any other exception (a timeout, for one), or a
  response with its status and body. The body is the value \<open>response.json()\<close> decodes:
  nothing decodable (the decoder raises), a value that is falsy or not a list, or a list
  of elements. An element is a JSON object, seen through the two keys of the endpoint's
  contract, or some other value, on which the lookups of the code raise. The value under
  \<open>deliveryDates\<close> is typed as the endpoint's contract has it, a list of strings.
\<close>

record entry =
  postalCode :: "pystr option"
  deliveryDates :: "pystr list option"

datatype element = Non_object | Object entry

datatype payload = Undecodable | Not_a_list | Entries "element list"

datatype http_reply = Client_error | Other_exception | Response nat payload

text \<open>
  The surroundings of one update cycle: the two readings of \<open>datetime.now()\<close> (in
  \<open>_is_data_stale\<close>, and when the new snapshot is stamped), \<open>date.today()\<close> and the
  endpoint's answer should the cycle ask.
\<close>

record env =
  env_now :: datetime
  env_now_fetched :: datetime
  env_today :: date
  env_reply :: http_reply

subsection \<open>\<open>_async_update_data\<close>\<close>

text \<open>
  The statements inside \<open>try\<close>, after the request has been sent: the value is the
  dictionary returned, or the exception raised inside the block.
\<close>

definition fetch_body :: "env \<Rightarrow> coordinator \<Rightarrow> exn + snapshot" where
  "fetch_body e c =
     (case env_reply e of
        Client_error \<Rightarrow> Inl ClientError
      | Other_exception \<Rightarrow> Inl OtherError
      | Response status body \<Rightarrow>
          if status \<noteq> 200 then Inl UpdateFailed
          else
            (case body of
               Undecodable \<Rightarrow> Inl OtherError
             | Not_a_list \<Rightarrow> Inl UpdateFailed
             | Entries [] \<Rightarrow> Inl UpdateFailed
             | Entries (Non_object # _) \<Rightarrow> Inl OtherError
             | Entries (Object first_entry # _) \<Rightarrow>
                 (case deliveryDates first_entry of
                    None \<Rightarrow> Inl UpdateFailed
                  | Some dates \<Rightarrow>
                      if dates = [] then Inl UpdateFailed
                      else
                        (case check_last_delivery (env_today e) c of
                           Inl err \<Rightarrow> Inl err
                         | Inr checked \<Rightarrow>
                             Inr \<lparr>delivery_dates = dates,
                                  last_updated = Some (env_now_fetched e),
                                  last_delivery_date = checked\<rparr>))))"

text \<open>
  The two messages with which \<open>UpdateFailed\<close> leaves \<open>_async_update_data\<close>: the handler
  of \<open>aiohttp.ClientError\<close>, and the handler of every other \<open>Exception\<close>, which also
  catches the \<open>UpdateFailed\<close> raised inside the block.
\<close>

datatype update_failed = Error_communicating | Unexpected_error

text \<open>
  One call: what it returns or raises, the coordinator afterwards, and the number of
  requests it sent to the endpoint.
\<close>

record cycle =
  result :: "update_failed + snapshot option"
  coord :: coordinator
  api_calls :: nat

definition fetch_cycle :: "env \<Rightarrow> coordinator \<Rightarrow> cycle" where
  "fetch_cycle e c =
     (let c1 = (if first_update c then c\<lparr>first_update := False\<rparr> else c)
      in case fetch_body e c1 of
           Inr snap \<Rightarrow>
             \<lparr>result = Inr (Some snap),
              coord = c1\<lparr>update_interval := DEFAULT_UPDATE_INTERVAL\<rparr>, api_calls = 1\<rparr>
         | Inl ClientError \<Rightarrow>
             \<lparr>result = Inl Error_communicating,
              coord = c1\<lparr>update_interval := RETRY_UPDATE_INTERVAL\<rparr>, api_calls = 1\<rparr>
         | Inl _ \<Rightarrow>
             \<lparr>result = Inl Unexpected_error,
              coord = c1\<lparr>update_interval := RETRY_UPDATE_INTERVAL\<rparr>, api_calls = 1\<rparr>)"

definition async_update_data :: "env \<Rightarrow> coordinator \<Rightarrow> cycle" where
  "async_update_data e c =
     (if is_data_stale (env_now e) c \<and> \<not> skip_first_update c then fetch_cycle e c
      else if skip_first_update c then
        \<lparr>result = Inr (data c),
         coord = c\<lparr>skip_first_update := False, first_update := False\<rparr>, api_calls = 0\<rparr>
      else fetch_cycle e c)"

text \<open>
  The part of the base class's refresh that this code relies on: the value returned
  becomes \<open>data\<close> and \<open>last_update_success\<close> is set; when \<open>UpdateFailed\<close> is raised, \<open>data\<close>
  stays and \<open>last_update_success\<close> is cleared. The next refresh is then armed after
  \<open>update_interval\<close>.
\<close>

definition async_refresh :: "env \<Rightarrow> coordinator \<Rightarrow> coordinator" where
  "async_refresh e c =
     (let r = async_update_data e c
      in case result r of
           Inr d \<Rightarrow> (coord r)\<lparr>data := d, last_update_success := True\<rparr>
         | Inl err \<Rightarrow> (coord r)\<lparr>last_update_success := False\<rparr>)"

text \<open>A run of update cycles, one environment for each, oldest first.\<close>

definition run_cycles :: "env list \<Rightarrow> coordinator \<Rightarrow> coordinator" where
  "run_cycles es c = fold async_refresh es c"

text \<open>
  The spec's poll phase, read off the coordinator: \<open>Failing\<close> when the most recent fetch
  attempt failed, \<open>Seeded\<close> while the first-fetch skip is pending, \<open>FirstFetch\<close> before the
  first fetch, \<open>Steady\<close> otherwise.
\<close>

datatype poll_phase = Seeded | FirstFetch | Steady | Failing

definition phase :: "coordinator \<Rightarrow> poll_phase" where
  "phase c =
     (if \<not> last_update_success c then Failing
      else if skip_first_update c then Seeded
      else if first_update c then FirstFetch
      else Steady)"

section \<open>The earlier coordinator, \<open>posti_delivery/coordinator.py\<close>\<close>

text \<open>
  This variant keeps no \<open>last_delivery_date\<close> key in its dictionary (the optional field
  stays \<open>None\<close>), has no staleness check and no retry interval, and draws its waits
  with \<open>random.randint\<close>. Its constructor is \<open>init_coordinator\<close> as well. The
  environment gives the reading of \<open>datetime.now()\<close>, the endpoint's answer, and the
  value \<open>random.randint(a, b)\<close> returns for the bounds it is called with.
\<close>

record legacy_env =
  lenv_now_fetched :: datetime
  lenv_reply :: http_reply
  lenv_randint :: "int \<Rightarrow> int \<Rightarrow> int"

definition legacy_fetch_body :: "legacy_env \<Rightarrow> exn + snapshot" where
  "legacy_fetch_body e =
     (case lenv_reply e of
        Client_error \<Rightarrow> Inl ClientError
      | Other_exception \<Rightarrow> Inl OtherError
      | Response status body \<Rightarrow>
          if status \<noteq> 200 then Inl UpdateFailed
          else
            (case body of
               Undecodable \<Rightarrow> Inl OtherError
             | Not_a_list \<Rightarrow> Inl UpdateFailed
             | Entries [] \<Rightarrow> Inl UpdateFailed
             | Entries (Non_object # _) \<Rightarrow> Inl OtherError
             | Entries (Object first_entry # _) \<Rightarrow>
                 (case deliveryDates first_entry of
                    None \<Rightarrow> Inl UpdateFailed
                  | Some dates \<Rightarrow>
                      if dates = [] then Inl UpdateFailed
                      else Inr \<lparr>delivery_dates = dates,
                                last_updated = Some (lenv_now_fetched e),
                                last_delivery_date = None\<rparr>)))"

definition legacy_async_update_data :: "legacy_env \<Rightarrow> coordinator \<Rightarrow> cycle" where
  "legacy_async_update_data e c =
     (if skip_first_update c then
        (let offset_seconds = lenv_randint e 0 (int_total_seconds INITIAL_RANDOM_OFFSET_MAX)
         in \<lparr>result = Inr (data c),
             coord = c\<lparr>skip_first_update := False, first_update := False,
                       update_interval := DEFAULT_UPDATE_INTERVAL + seconds offset_seconds\<rparr>,
             api_calls = 0\<rparr>)
      else
        (let c1 =
               (if first_update c then
                  (let offset_seconds =
                         lenv_randint e 0 (int_total_seconds INITIAL_RANDOM_OFFSET_MAX)
                   in c\<lparr>first_update := False,
                         update_interval := DEFAULT_UPDATE_INTERVAL + seconds offset_seconds\<rparr>)
                else
                  (let jitter_seconds =
                         lenv_randint e (- int_total_seconds UPDATE_JITTER_MAX)
                           (int_total_seconds UPDATE_JITTER_MAX)
                   in c\<lparr>update_interval := DEFAULT_UPDATE_INTERVAL + seconds jitter_seconds\<rparr>))
         in case legacy_fetch_body e of
              Inr snap \<Rightarrow> \<lparr>result = Inr (Some snap), coord = c1, api_calls = 1\<rparr>
            | Inl ClientError \<Rightarrow> \<lparr>result = Inl Error_communicating, coord = c1, api_calls = 1\<rparr>
            | Inl _ \<Rightarrow> \<lparr>result = Inl Unexpected_error, coord = c1, api_calls = 1\<rparr>))"

definition legacy_async_refresh :: "legacy_env \<Rightarrow> coordinator \<Rightarrow> coordinator" where
  "legacy_async_refresh e c =
     (let r = legacy_async_update_data e c
      in case result r of
           Inr d \<Rightarrow> (coord r)\<lparr>data := d, last_update_success := True\<rparr>
         | Inl err \<Rightarrow> (coord r)\<lparr>last_update_success := False\<rparr>)"

section \<open>sensor.py\<close>

definition native_value :: "date \<Rightarrow> coordinator \<Rightarrow> exn + pystr option" where
  "native_value t c =
     (case data c of
        None \<Rightarrow> Inr None
      | Some s \<Rightarrow>
          if delivery_dates s = [] then Inr None
          else
            (case future_dates t (delivery_dates s) of
               Inl e \<Rightarrow> Inl e
             | Inr fs \<Rightarrow> Inr (first_or_none fs)))"

text \<open>\<open>date.toordinal\<close>, for the day difference \<open>(next_date - today).days\<close>.\<close>

definition days_before_year :: "nat \<Rightarrow> int" where
  "days_before_year y =
     (let p = int y - 1 in p * 365 + p div 4 - p div 100 + p div 400)"

definition days_before_month :: "nat \<Rightarrow> nat \<Rightarrow> int" where
  "days_before_month y m = (\<Sum>k \<leftarrow> [1..<m]. int (days_in_month y k))"

definition toordinal :: "date \<Rightarrow> int" where
  "toordinal dt =
     (case dt of (y, m, d) \<Rightarrow> days_before_year y + days_before_month y m + int d)"

record attributes =
  attr_postal_code :: pystr
  attr_next_scheduled_date :: "pystr option"
  attr_last_scheduled_date :: "pystr option"
  attr_days_until_next :: "int option"
  attr_delivery_count :: nat
  attr_all_delivery_dates :: "pystr list"
  attr_last_updated :: "datetime option"

text \<open>
  \<open>extra_state_attributes\<close>: \<open>None\<close> stands for the empty dictionary returned when the
  coordinator has no data. \<open>last_updated\<close> is shown as an ISO string; the model keeps the
  datetime it is printed from.
\<close>

definition extra_state_attributes :: "date \<Rightarrow> pystr \<Rightarrow> coordinator \<Rightarrow> exn + attributes option" where
  "extra_state_attributes t code c =
     (case data c of
        None \<Rightarrow> Inr None
      | Some s \<Rightarrow>
          if delivery_dates s = [] then
            Inr (Some \<lparr>attr_postal_code = code, attr_next_scheduled_date = None,
                       attr_last_scheduled_date = None, attr_days_until_next = None,
                       attr_delivery_count = 0, attr_all_delivery_dates = [],
                       attr_last_updated = last_updated s\<rparr>)
          else
            (case future_dates t (delivery_dates s) of
               Inl e \<Rightarrow> Inl e
             | Inr fs \<Rightarrow>
                 (let next_delivery = first_or_none fs;
                      days_until_next =
                        (case next_delivery of
                           None \<Rightarrow> None
                         | Some n \<Rightarrow>
                             if n = [] then None
                             else (case strptime n of
                                     Inl e \<Rightarrow> None
                                   | Inr next_date \<Rightarrow> Some (toordinal next_date - toordinal t)))
                  in Inr (Some \<lparr>attr_postal_code = code,
                                attr_next_scheduled_date = next_delivery,
                                attr_last_scheduled_date = last_delivery_date s,
                                attr_days_until_next = days_until_next,
                                attr_delivery_count = length (delivery_dates s),
                                attr_all_delivery_dates = delivery_dates s,
                                attr_last_updated = last_updated s\<rparr>))))"

definition available :: "coordinator \<Rightarrow> bool" where
  "available c = (last_update_success c \<or> data c \<noteq> None)"

section \<open>config_flow.py\<close>

text \<open>
  \<^verbatim>\<open>re.match(r"^\d{5}$", postal_code)\<close>: five decimal digits from the start of the string;
  \<open>$\<close> accepts the end of the string and also the position before one final newline.
\<close>

definition re_match_postal :: "pystr \<Rightarrow> bool" where
  "re_match_postal s =
     (list_all re_digit (take 5 s) \<and>
      (length s = 5 \<or> (length s = 6 \<and> s ! 5 = 10)))"

datatype flow_error = InvalidPostalCode | CannotConnect | NoData | UnknownError

datatype flow_exn = Raised flow_error | Raised_client_error | Raised_other

record info =
  title :: pystr
  info_postal_code :: pystr
  info_delivery_dates :: "pystr list"

text \<open>The statements inside \<open>try\<close> in \<open>validate_input\<close>.\<close>

definition validate_body :: "http_reply \<Rightarrow> flow_exn + pystr list" where
  "validate_body reply =
     (case reply of
        Client_error \<Rightarrow> Inl Raised_client_error
      | Other_exception \<Rightarrow> Inl Raised_other
      | Response status body \<Rightarrow>
          if status \<noteq> 200 then Inl (Raised CannotConnect)
          else
            (case body of
               Undecodable \<Rightarrow> Inl Raised_other
             | Not_a_list \<Rightarrow> Inl (Raised NoData)
             | Entries [] \<Rightarrow> Inl (Raised NoData)
             | Entries (Non_object # _) \<Rightarrow> Inl Raised_other
             | Entries (Object first_entry # _) \<Rightarrow>
                 if postalCode first_entry = None \<or> deliveryDates first_entry = None
                 then Inl (Raised NoData)
                 else
                   (case deliveryDates first_entry of
                      None \<Rightarrow> Inl (Raised NoData)
                    | Some dates \<Rightarrow> if dates = [] then Inl (Raised NoData) else Inr dates)))"

text \<open>
  \<open>validate_input\<close>: the check of the format comes before \<open>try\<close>; inside it, the handler
  of \<open>aiohttp.ClientError\<close> raises \<open>CannotConnect\<close> and the handler of every other
  \<open>Exception\<close> raises \<open>UnknownError\<close>.
\<close>

definition validate_input :: "http_reply \<Rightarrow> pystr \<Rightarrow> flow_error + info" where
  "validate_input reply user_input =
     (let code = strip user_input
      in if \<not> re_match_postal code then Inl InvalidPostalCode
         else
           (case validate_body reply of
              Inl Raised_client_error \<Rightarrow> Inl CannotConnect
            | Inl _ \<Rightarrow> Inl UnknownError
            | Inr dates \<Rightarrow>
                Inr \<lparr>title = pystr ''Posti '' @ code, info_postal_code = code,
                     info_delivery_dates = dates\<rparr>))"

text \<open>
  \<open>async_step_user\<close>: the form shown again with an error key (or with none before any
  input), the abort for a postal code already configured, or the entry created, from
  which setup later builds the coordinator.
\<close>

datatype flow_result =
  Show_form "string option"
  | Abort_already_configured
  | Create_entry pystr pystr initial_data

definition async_step_user ::
  "http_reply \<Rightarrow> datetime \<Rightarrow> pystr list \<Rightarrow> pystr option \<Rightarrow> flow_result" where
  "async_step_user reply now configured user_input =
     (case user_input of
        None \<Rightarrow> Show_form None
      | Some inp \<Rightarrow>
          (case validate_input reply inp of
             Inl InvalidPostalCode \<Rightarrow> Show_form (Some ''invalid_postal_code'')
           | Inl CannotConnect \<Rightarrow> Show_form (Some ''cannot_connect'')
           | Inl NoData \<Rightarrow> Show_form (Some ''no_data'')
           | Inl UnknownError \<Rightarrow> Show_form (Some ''unknown'')
           | Inr i \<Rightarrow>
               if info_postal_code i \<in> set configured then Abort_already_configured
               else Create_entry (title i) (info_postal_code i)
                      \<lparr>seed_delivery_dates = Some (info_delivery_dates i),
                       seed_last_updated = now\<rparr>))"

section \<open>Notions used to state the properties\<close>

text \<open>The test of the comprehension on one entry that parses: its date is today or later.\<close>

definition on_or_after :: "date \<Rightarrow> pystr \<Rightarrow> bool" where
  "on_or_after t d = (case strptime d of Inl e \<Rightarrow> False | Inr dt \<Rightarrow> t \<le> dt)"

text \<open>
  The spec's \<open>partitionByToday\<close> and \<open>earliestFuture\<close>, written after the spec's words and
  not after the code: malformed entries are left out, the future partition holds the
  dates on or after today, and \<open>earliestFuture\<close> is its minimum, or empty.
\<close>

definition spec_parsed_dates :: "pystr list \<Rightarrow> date list" where
  "spec_parsed_dates ds =
     concat (map (\<lambda>d. case strptime d of Inl e \<Rightarrow> [] | Inr dt \<Rightarrow> [dt]) ds)"

definition spec_future_partition :: "date \<Rightarrow> pystr list \<Rightarrow> date list" where
  "spec_future_partition t ds = filter (\<lambda>dt. t \<le> dt) (spec_parsed_dates ds)"

definition spec_earliestFuture :: "date \<Rightarrow> pystr list \<Rightarrow> date option" where
  "spec_earliestFuture t ds =
     (case spec_future_partition t ds of
        [] \<Rightarrow> None
      | dt # dts \<Rightarrow> Some (Min (set (dt # dts))))"

text \<open>
  The spec's fetch failure, as the negation of its success: a success needs a transport
  that worked, status 200, and a decodable body that is a non-empty list whose first
  element holds a non-empty list of delivery dates.
\<close>

definition reply_is_success :: "http_reply \<Rightarrow> bool" where
  "reply_is_success reply =
     (case reply of
        Response status (Entries (Object first_entry # rest)) \<Rightarrow>
          status = 200 \<and>
          (case deliveryDates first_entry of None \<Rightarrow> False | Some dates \<Rightarrow> dates \<noteq> [])
      | _ \<Rightarrow> False)"

text \<open>An answer of the endpoint that carries the given delivery dates for 00100.\<close>

definition reply_dates :: "pystr list \<Rightarrow> http_reply" where
  "reply_dates ds =
     Response 200
       (Entries [Object \<lparr>postalCode = Some (pystr ''00100''), deliveryDates = Some ds\<rparr>])"

text \<open>
  Scenario C of the spec: a first fetch on 2025-05-31 announces 2025-06-01; the next
  fetch, two days later on 2025-06-02, announces 2025-06-10.
\<close>

definition scenario_C_first :: env where
  "scenario_C_first =
     \<lparr>env_now = 0, env_now_fetched = seconds 1, env_today = (2025, 5, 31),
      env_reply = reply_dates [pystr ''2025-06-01'']\<rparr>"

definition scenario_C_second :: env where
  "scenario_C_second =
     \<lparr>env_now = seconds 172800, env_now_fetched = seconds 172801, env_today = (2025, 6, 2),
      env_reply = reply_dates [pystr ''2025-06-10'']\<rparr>"

text \<open>A coordinator that holds the given delivery dates, fetched at time 0.\<close>

definition holding :: "pystr list \<Rightarrow> coordinator" where
  "holding ds =
     (init_coordinator (pystr ''00100'') None)
       \<lparr>first_update := False,
        data := Some \<lparr>delivery_dates = ds, last_updated = Some 0, last_delivery_date = None\<rparr>\<rparr>"

text \<open>
  A coordinator seeded by the config flow at time 0, before its first cycle; and the
  environment of a cycle that starts one second more than the base interval later.
\<close>

definition seeded :: coordinator where
  "seeded =
     init_coordinator (pystr ''00100'')
       (Some \<lparr>seed_delivery_dates = Some [pystr ''2025-06-01''], seed_last_updated = 0\<rparr>)"

definition late_cycle :: env where
  "late_cycle =
     \<lparr>env_now = DEFAULT_UPDATE_INTERVAL + seconds 1,
      env_now_fetched = DEFAULT_UPDATE_INTERVAL + seconds 2, env_today = (2025, 5, 31),
      env_reply = reply_dates [pystr ''2025-06-01'']\<rparr>"

text \<open>
  Scenario D of the spec: a cycle whose fetch comes back with HTTP 500.
\<close>

definition failing_cycle :: env where
  "failing_cycle =
     \<lparr>env_now = seconds 100, env_now_fetched = seconds 101, env_today = (2025, 5, 31),
      env_reply = Response 500 Undecodable\<rparr>"

text \<open>
  For the earlier coordinator: a cycle whose request meets a transport error while
  \<open>random.randint\<close> draws the upper bound of its range.
\<close>

definition legacy_failing :: legacy_env where
  "legacy_failing =
     \<lparr>lenv_now_fetched = seconds 101, lenv_reply = Client_error, lenv_randint = (\<lambda>a b. b)\<rparr>"

text \<open>A coordinator whose snapshot records a last delivery on 2025-05-28.\<close>

definition delivered :: coordinator where
  "delivered =
     (holding [pystr ''2025-06-01''])
       \<lparr>data := Some \<lparr>delivery_dates = [pystr ''2025-06-01''], last_updated = Some 0,
                      last_delivery_date = Some (pystr ''2025-05-28'')\<rparr>\<rparr>"

text \<open>The spec's range for the steady-state wait.\<close>

definition within_jitter :: "timedelta \<Rightarrow> bool" where
  "within_jitter w =
     (DEFAULT_UPDATE_INTERVAL - UPDATE_JITTER_MAX \<le> w \<and>
      w \<le> DEFAULT_UPDATE_INTERVAL + UPDATE_JITTER_MAX)"

text \<open>
  Five Arabic-Indic digits, U+0661 to U+0665: the string that reads 12345 in that script.
\<close>

definition arabic_indic_12345 :: pystr where
  "arabic_indic_12345 = [1633, 1634, 1635, 1636, 1637]"

section \<open>Parsing and filtering\<close>

lemma digit_value_ascii: "48 \<le> c \<Longrightarrow> c \<le> 57 \<Longrightarrow> digit_value c = Some (c - 48)"
  by (simp add: digit_value_def unicode_decimal_zeros_def)

lemmas strptime_eval =
  pystr_def strptime_def format_matches_def month_alts_def day_alts_def in_class_def
  class_value_def days_in_month_def is_leap_def digit_value_ascii

lemma strptime_2025_06_01: "strptime (pystr ''2025-06-01'') = Inr (2025, 6, 1)"
  by (simp add: strptime_eval)

lemma strptime_2025_06_05: "strptime (pystr ''2025-06-05'') = Inr (2025, 6, 5)"
  by (simp add: strptime_eval)

lemma strptime_2025_06_10: "strptime (pystr ''2025-06-10'') = Inr (2025, 6, 10)"
  by (simp add: strptime_eval)

lemma digit_value_n: "digit_value 110 = None"
  by (simp add: digit_value_def unicode_decimal_zeros_def)

lemma strptime_not_a_date: "strptime (pystr ''not-a-date'') = Inl ValueError"
  by (simp add: strptime_eval digit_value_n)

lemma strptime_error: "strptime s = Inl e \<Longrightarrow> e = ValueError"
  by (auto simp: strptime_def split: list.splits prod.splits if_splits)

lemma future_dates_malformed:
  "d \<in> set ds \<Longrightarrow> strptime d = Inl e \<Longrightarrow> future_dates t ds = Inl ValueError"
proof (induction ds)
  case Nil
  then show ?case by simp
next
  case (Cons x xs)
  show ?case
  proof (cases "strptime x")
    case (Inl a)
    then show ?thesis using strptime_error [OF Inl] by simp
  next
    case (Inr dt)
    with Cons have "d \<in> set xs" by auto
    with Cons have "future_dates t xs = Inl ValueError" by simp
    with Inr show ?thesis by simp
  qed
qed

lemma future_dates_wellformed:
  "\<forall>d \<in> set ds. \<not> isl (strptime d) \<Longrightarrow> future_dates t ds = Inr (filter (on_or_after t) ds)"
  by (induction ds) (auto simp: on_or_after_def split: sum.splits)

lemma future_dates_eq:
  "future_dates t ds =
     (if \<exists>d \<in> set ds. isl (strptime d) then Inl ValueError
      else Inr (filter (on_or_after t) ds))"
proof (cases "\<exists>d \<in> set ds. isl (strptime d)")
  case True
  then obtain d where "d \<in> set ds" "isl (strptime d)" by blast
  then obtain e where "strptime d = Inl e" by (cases "strptime d") auto
  with \<open>d \<in> set ds\<close> have "future_dates t ds = Inl ValueError"
    by (rule future_dates_malformed)
  with True show ?thesis by simp
next
  case False
  then show ?thesis by (simp add: future_dates_wellformed)
qed

lemma first_or_none_filter: "first_or_none (filter P xs) = find P xs"
  by (induction xs) (auto simp: first_or_none_def)

lemma check_last_delivery_unchanged:
  "check_last_delivery t c = Inr r \<Longrightarrow>
     r = (case data c of None \<Rightarrow> None | Some s \<Rightarrow> last_delivery_date s)"
proof (cases "data c")
  case None
  assume "check_last_delivery t c = Inr r"
  with None show ?thesis by (simp add: check_last_delivery_def)
next
  case (Some s)
  assume a: "check_last_delivery t c = Inr r"
  show ?thesis
  proof (cases "\<exists>d \<in> set (delivery_dates s). isl (strptime d)")
    case True
    with a Some show ?thesis
      by (simp add: check_last_delivery_def future_dates_eq split: if_splits)
  next
    case False
    have "find (on_or_after t) (delivery_dates s) = Some d \<Longrightarrow> strptime d = Inr dt \<Longrightarrow> \<not> dt < t" for d dt
      by (auto simp: find_Some_iff on_or_after_def)
    with a Some False show ?thesis
      by (auto simp: check_last_delivery_def future_dates_eq first_or_none_filter
          split: if_splits option.splits sum.splits)
  qed
qed

section \<open>Evaluating the cycle\<close>

lemmas cycle_defs =
  run_cycles_def async_refresh_def async_update_data_def fetch_cycle_def fetch_body_def
  is_data_stale_def check_last_delivery_def first_or_none_def

lemmas scenario_defs =
  init_coordinator_def holding_def seeded_def reply_dates_def scenario_C_first_def
  scenario_C_second_def late_cycle_def failing_cycle_def legacy_failing_def delivered_def

lemma check_last_delivery_malformed:
  "data c = Some s \<Longrightarrow> d \<in> set (delivery_dates s) \<Longrightarrow> isl (strptime d) \<Longrightarrow>
     check_last_delivery t c = Inl ValueError"
  by (auto simp: check_last_delivery_def future_dates_eq)

lemma fetch_cycle_result:
  "isl (result (fetch_cycle e c)) =
     isl (fetch_body e (if first_update c then c\<lparr>first_update := False\<rparr> else c))"
  by (simp add: fetch_cycle_def Let_def split: sum.splits exn.splits)

lemma fetch_body_check_fails:
  "check_last_delivery (env_today e) c = Inl x \<Longrightarrow> isl (fetch_body e c)"
  by (simp add: fetch_body_def split: http_reply.splits payload.splits list.splits
      element.splits option.splits)

section \<open>The reconciler on scenario C\<close>

text \<open>
  C1. The spec has the reconciler take the date that was next in the previous snapshot
  and make it the last delivery once it lies before today: with 2025-06-01 announced and
  the next fetch on 2025-06-02, the last delivery date should become 2025-06-01. The
  code filters the previous dates by the current today before it looks for one before
  today, so none is found: on scenario C \<open>_check_last_delivery\<close> returns \<open>None\<close>, and the
  snapshot stored by the second cycle has no last delivery date.
\<close>

theorem scenario_C_last_delivery_stays_empty:
  "check_last_delivery (2025, 6, 2)
     (async_refresh scenario_C_first (init_coordinator (pystr ''00100'') None)) = Inr None
   \<and> data (run_cycles [scenario_C_first, scenario_C_second]
              (init_coordinator (pystr ''00100'') None))
       = Some \<lparr>delivery_dates = [pystr ''2025-06-10''], last_updated = Some (seconds 172801),
               last_delivery_date = None\<rparr>"
  by (simp add: cycle_defs scenario_defs strptime_2025_06_01)

section \<open>Malformed entries\<close>

text \<open>
  C9, as the spec states it: an entry that is not a date is left out of both partitions
  and the other entries still give a result. On the list \<open>not-a-date, 2025-06-01\<close> the
  spec's future partition is 2025-06-01, while \<open>native_value\<close> and
  \<open>_check_last_delivery\<close> raise \<open>ValueError\<close>.
\<close>

theorem malformed_entry_counterexample:
  "native_value (2025, 5, 30) (holding [pystr ''not-a-date'', pystr ''2025-06-01''])
     = Inl ValueError
   \<and> check_last_delivery (2025, 5, 30) (holding [pystr ''not-a-date'', pystr ''2025-06-01''])
     = Inl ValueError
   \<and> spec_future_partition (2025, 5, 30) [pystr ''not-a-date'', pystr ''2025-06-01'']
     = [(2025, 6, 1)]"
  by (simp add: native_value_def check_last_delivery_def scenario_defs strptime_not_a_date
      strptime_2025_06_01 spec_future_partition_def spec_parsed_dates_def)

text \<open>
  C9, amended: when the cached list holds an entry that \<open>strptime\<close> rejects, the filter
  raises \<open>ValueError\<close>: \<open>native_value\<close> raises it, \<open>_check_last_delivery\<close> raises it, and an
  update cycle that fetches fails.
\<close>

theorem malformed_entry_raises:
  assumes "data c = Some s" and "d \<in> set (delivery_dates s)" and "isl (strptime d)"
  shows "native_value t c = Inl ValueError
       \<and> check_last_delivery t c = Inl ValueError
       \<and> (\<not> skip_first_update c \<longrightarrow> isl (result (async_update_data e c)))"
proof -
  from assms have nonempty: "delivery_dates s \<noteq> []" by auto
  from assms have bad: "\<exists>d \<in> set (delivery_dates s). isl (strptime d)" by blast
  have nv: "native_value t c = Inl ValueError"
    using assms(1) nonempty bad by (simp add: native_value_def future_dates_eq)
  have chk: "check_last_delivery t c = Inl ValueError"
    using assms by (rule check_last_delivery_malformed)
  have cyc: "isl (result (async_update_data e c))" if "\<not> skip_first_update c"
  proof -
    let ?c1 = "if first_update c then c\<lparr>first_update := False\<rparr> else c"
    have "data ?c1 = Some s" using assms(1) by simp
    then have "check_last_delivery (env_today e) ?c1 = Inl ValueError"
      using assms(2,3) by (rule check_last_delivery_malformed)
    then have "isl (fetch_body e ?c1)" by (rule fetch_body_check_fails)
    then have "isl (result (fetch_cycle e c))" by (simp only: fetch_cycle_result)
    with that show ?thesis by (simp add: async_update_data_def)
  qed
  from nv chk cyc show ?thesis by blast
qed

theorem malformed_entry_raises_witness:
  "native_value (2025, 5, 30) (holding [pystr ''not-a-date'', pystr ''2025-06-01''])
     = Inl ValueError
   \<and> isl (result (async_update_data late_cycle
                    (holding [pystr ''not-a-date'', pystr ''2025-06-01''])))"
proof -
  have d: "data (holding [pystr ''not-a-date'', pystr ''2025-06-01''])
             = Some \<lparr>delivery_dates = [pystr ''not-a-date'', pystr ''2025-06-01''],
                     last_updated = Some 0, last_delivery_date = None\<rparr>"
    by (simp add: scenario_defs)
  have m: "pystr ''not-a-date''
             \<in> set (delivery_dates \<lparr>delivery_dates = [pystr ''not-a-date'', pystr ''2025-06-01''],
                     last_updated = Some 0, last_delivery_date = None\<rparr>)"
    by simp
  have b: "isl (strptime (pystr ''not-a-date''))" by (simp add: strptime_not_a_date)
  have s: "\<not> skip_first_update (holding [pystr ''not-a-date'', pystr ''2025-06-01''])"
    by (simp add: scenario_defs)
  from malformed_entry_raises [OF d m b, of "(2025, 5, 30)" late_cycle] s show ?thesis by blast
qed

section \<open>The next delivery date\<close>

lemma spec_parsed_dates_wellformed:
  "\<forall>d \<in> set ds. \<not> isl (strptime d) \<Longrightarrow> spec_parsed_dates ds = map (\<lambda>d. projr (strptime d)) ds"
  by (induction ds) (auto simp: spec_parsed_dates_def split: sum.splits)

lemma Min_sorted_Cons: "sorted (y # ys) \<Longrightarrow> Min (set (y # ys)) = y"
  by (auto intro!: Min_eqI)

lemma first_or_none_filter_map:
  "first_or_none (filter Q (map f ds)) = map_option f (find (\<lambda>d. Q (f d)) ds)"
  by (induction ds) (auto simp: first_or_none_def)

lemma spec_earliestFuture_sorted:
  assumes "sorted (spec_parsed_dates ds)"
  shows "spec_earliestFuture t ds = first_or_none (spec_future_partition t ds)"
proof (cases "spec_future_partition t ds")
  case Nil
  then show ?thesis by (simp add: spec_earliestFuture_def first_or_none_def)
next
  case (Cons y ys)
  from assms have "sorted (spec_future_partition t ds)"
    by (simp add: spec_future_partition_def sorted_wrt_filter)
  with Cons have "Min (set (y # ys)) = y" by (simp only: Min_sorted_Cons)
  with Cons show ?thesis by (simp add: spec_earliestFuture_def first_or_none_def)
qed

lemma find_on_or_after:
  "\<forall>d \<in> set ds. \<not> isl (strptime d) \<Longrightarrow>
     find (\<lambda>d. t \<le> projr (strptime d)) ds = find (on_or_after t) ds"
  by (rule find_cong) (auto simp: on_or_after_def split: sum.splits)

lemma native_value_eq:
  "data c = Some s \<Longrightarrow>
     native_value t c =
       (if \<exists>d \<in> set (delivery_dates s). isl (strptime d) then Inl ValueError
        else Inr (find (on_or_after t) (delivery_dates s)))"
  by (cases "delivery_dates s = []")
     (simp_all add: native_value_def future_dates_eq first_or_none_filter)

lemma next_scheduled_date_eq:
  "extra_state_attributes t code c = Inr (Some a) \<Longrightarrow>
     native_value t c = Inr (attr_next_scheduled_date a)"
  by (auto simp: extra_state_attributes_def native_value_def Let_def
      split: option.splits if_splits sum.splits)

lemma extra_state_attributes_returns:
  assumes "data c = Some s" and "\<forall>d \<in> set (delivery_dates s). \<not> isl (strptime d)"
  shows "\<exists>a. extra_state_attributes t code c = Inr (Some a)"
proof (cases "delivery_dates s = []")
  case True
  with assms(1) show ?thesis by (simp add: extra_state_attributes_def)
next
  case False
  from assms(2) have "future_dates t (delivery_dates s)
      = Inr (filter (on_or_after t) (delivery_dates s))"
    by (rule future_dates_wellformed)
  with assms(1) False show ?thesis by (simp add: extra_state_attributes_def Let_def)
qed

text \<open>
  C2, as the spec states it: the next delivery date is the minimum of the dates on or
  after today, also when the list is not in ascending order. On the list
  \<open>2025-06-05, 2025-06-01\<close> with today 2025-05-30 the minimum is 2025-06-01, and
  \<open>native_value\<close> returns \<open>2025-06-05\<close>.
\<close>

theorem native_value_unsorted_counterexample:
  "native_value (2025, 5, 30) (holding [pystr ''2025-06-05'', pystr ''2025-06-01''])
     = Inr (Some (pystr ''2025-06-05''))
   \<and> strptime (pystr ''2025-06-05'') = Inr (2025, 6, 5)
   \<and> spec_earliestFuture (2025, 5, 30) [pystr ''2025-06-05'', pystr ''2025-06-01'']
     = Some (2025, 6, 1)"
  by (simp add: native_value_def scenario_defs strptime_2025_06_05 strptime_2025_06_01
      first_or_none_def spec_earliestFuture_def spec_future_partition_def
      spec_parsed_dates_def)

text \<open>
  C2, amended: for a snapshot whose entries all parse, \<open>native_value\<close> and the
  \<open>next_scheduled_date\<close> attribute are the first entry, in the order of the list, whose date
  is on or after today, or empty when there is none; when the list is in ascending order
  of dates, that entry's date is the minimum of the dates on or after today.
\<close>

theorem native_value_first_future:
  assumes "data c = Some s" and "\<forall>d \<in> set (delivery_dates s). \<not> isl (strptime d)"
  shows "native_value t c = Inr (find (on_or_after t) (delivery_dates s))
       \<and> (\<exists>a. extra_state_attributes t code c = Inr (Some a)
              \<and> attr_next_scheduled_date a = find (on_or_after t) (delivery_dates s))
       \<and> (sorted (spec_parsed_dates (delivery_dates s)) \<longrightarrow>
            map_option strptime (find (on_or_after t) (delivery_dates s))
              = map_option Inr (spec_earliestFuture t (delivery_dates s)))"
proof -
  let ?ds = "delivery_dates s"
  have nv: "native_value t c = Inr (find (on_or_after t) ?ds)"
    using assms by (simp add: native_value_eq)
  have attr: "\<exists>a. extra_state_attributes t code c = Inr (Some a)
                \<and> attr_next_scheduled_date a = find (on_or_after t) ?ds"
  proof -
    from extra_state_attributes_returns [OF assms, of t code]
    obtain a where a: "extra_state_attributes t code c = Inr (Some a)" by blast
    from next_scheduled_date_eq [OF a] nv
    have "attr_next_scheduled_date a = find (on_or_after t) ?ds" by simp
    with a show ?thesis by blast
  qed
  have mn: "map_option strptime (find (on_or_after t) ?ds)
              = map_option Inr (spec_earliestFuture t ?ds)"
    if srt: "sorted (spec_parsed_dates ?ds)"
  proof -
    have "spec_earliestFuture t ?ds = first_or_none (spec_future_partition t ?ds)"
      using srt by (rule spec_earliestFuture_sorted)
    also have "\<dots> = map_option (\<lambda>d. projr (strptime d)) (find (\<lambda>d. t \<le> projr (strptime d)) ?ds)"
      using assms(2)
      by (simp add: spec_future_partition_def spec_parsed_dates_wellformed
          first_or_none_filter_map)
    also have "\<dots> = map_option (\<lambda>d. projr (strptime d)) (find (on_or_after t) ?ds)"
      using assms(2) by (simp add: find_on_or_after)
    finally have e: "spec_earliestFuture t ?ds
        = map_option (\<lambda>d. projr (strptime d)) (find (on_or_after t) ?ds)" .
    show ?thesis
    proof (cases "find (on_or_after t) ?ds")
      case None
      with e show ?thesis by simp
    next
      case (Some d)
      then have "d \<in> set ?ds" by (auto simp: find_Some_iff)
      with assms(2) have "\<not> isl (strptime d)" by blast
      then have "strptime d = Inr (projr (strptime d))" by (cases "strptime d") auto
      with e Some show ?thesis by simp
    qed
  qed
  from nv attr mn show ?thesis by blast
qed

theorem native_value_first_future_witness:
  "native_value (2025, 6, 2) (holding [pystr ''2025-06-01'', pystr ''2025-06-05'', pystr ''2025-06-10''])
     = Inr (Some (pystr ''2025-06-05''))
   \<and> (\<exists>a. extra_state_attributes (2025, 6, 2) (pystr ''00100'')
              (holding [pystr ''2025-06-01'', pystr ''2025-06-05'', pystr ''2025-06-10''])
            = Inr (Some a)
          \<and> attr_next_scheduled_date a = Some (pystr ''2025-06-05''))
   \<and> spec_earliestFuture (2025, 6, 2) [pystr ''2025-06-01'', pystr ''2025-06-05'', pystr ''2025-06-10'']
     = Some (2025, 6, 5)"
proof -
  let ?ds = "[pystr ''2025-06-01'', pystr ''2025-06-05'', pystr ''2025-06-10'']"
  let ?s = "\<lparr>delivery_dates = ?ds, last_updated = Some 0, last_delivery_date = None\<rparr>"
  have d: "data (holding ?ds) = Some ?s" by (simp add: scenario_defs)
  have w: "\<forall>d \<in> set (delivery_dates ?s). \<not> isl (strptime d)"
    by (simp add: strptime_2025_06_01 strptime_2025_06_05 strptime_2025_06_10)
  have srt: "sorted (spec_parsed_dates (delivery_dates ?s))"
    by (simp add: spec_parsed_dates_def strptime_2025_06_01 strptime_2025_06_05
        strptime_2025_06_10)
  have f: "find (on_or_after (2025, 6, 2)) (delivery_dates ?s) = Some (pystr ''2025-06-05'')"
    by (simp add: on_or_after_def strptime_2025_06_01 strptime_2025_06_05)
  note inst = native_value_first_future [OF d w, of "(2025, 6, 2)" "pystr ''00100''"]
  from inst have "native_value (2025, 6, 2) (holding ?ds)
      = Inr (find (on_or_after (2025, 6, 2)) (delivery_dates ?s))"
    by (rule conjunct1)
  then have nv: "native_value (2025, 6, 2) (holding ?ds) = Inr (Some (pystr ''2025-06-05''))"
    unfolding f .
  from inst have "\<exists>a. extra_state_attributes (2025, 6, 2) (pystr ''00100'') (holding ?ds)
            = Inr (Some a)
          \<and> attr_next_scheduled_date a = find (on_or_after (2025, 6, 2)) (delivery_dates ?s)"
    by blast
  then have at: "\<exists>a. extra_state_attributes (2025, 6, 2) (pystr ''00100'') (holding ?ds)
            = Inr (Some a)
          \<and> attr_next_scheduled_date a = Some (pystr ''2025-06-05'')"
    unfolding f .
  from inst srt have mn: "map_option strptime (find (on_or_after (2025, 6, 2)) (delivery_dates ?s))
      = map_option Inr (spec_earliestFuture (2025, 6, 2) (delivery_dates ?s))"
    by blast
  from mn [symmetric]
  have "map_option Inr (spec_earliestFuture (2025, 6, 2) ?ds) = Some (Inr (2025, 6, 5))"
    unfolding f by (simp add: strptime_2025_06_05)
  then have "spec_earliestFuture (2025, 6, 2) ?ds = Some (2025, 6, 5)"
    by (cases "spec_earliestFuture (2025, 6, 2) ?ds") simp_all
  with nv at show ?thesis by blast
qed

section \<open>The update cycle\<close>

lemmas interval_defs =
  seconds_def int_total_seconds_def DEFAULT_UPDATE_INTERVAL_def UPDATE_JITTER_MAX_def
  INITIAL_RANDOM_OFFSET_MAX_def RETRY_UPDATE_INTERVAL_def

lemma fetch_cycle_api_calls: "api_calls (fetch_cycle e c) = 1"
  by (simp add: fetch_cycle_def Let_def split: sum.splits exn.splits)

lemma fetch_cycle_data: "data (coord (fetch_cycle e c)) = data c"
  by (simp add: fetch_cycle_def Let_def split: sum.splits exn.splits)

lemma coord_data: "data (coord (async_update_data e c)) = data c"
  by (simp add: async_update_data_def fetch_cycle_data)

lemma fetch_body_failure: "\<not> reply_is_success (env_reply e) \<Longrightarrow> isl (fetch_body e c)"
  by (auto simp: fetch_body_def reply_is_success_def
      split: http_reply.splits payload.splits list.splits element.splits option.splits)

lemma fetch_cycle_failed:
  "isl (result (fetch_cycle e c)) \<Longrightarrow>
     update_interval (coord (fetch_cycle e c)) = RETRY_UPDATE_INTERVAL
     \<and> \<not> first_update (coord (fetch_cycle e c))
     \<and> skip_first_update (coord (fetch_cycle e c)) = skip_first_update c"
  by (auto simp: fetch_cycle_def Let_def split: sum.splits exn.splits if_splits)

lemma check_last_delivery_first_update:
  "check_last_delivery t (c\<lparr>first_update := b\<rparr>) = check_last_delivery t c"
  by (simp add: check_last_delivery_def)

lemma fetch_cycle_ok:
  "result (fetch_cycle e c) = Inr r \<Longrightarrow>
     update_interval (coord (fetch_cycle e c)) = DEFAULT_UPDATE_INTERVAL
     \<and> (\<exists>snap. r = Some snap \<and>
          last_delivery_date snap =
            (case data c of None \<Rightarrow> None | Some s \<Rightarrow> last_delivery_date s))"
proof -
  assume a: "result (fetch_cycle e c) = Inr r"
  let ?c1 = "if first_update c then c\<lparr>first_update := False\<rparr> else c"
  from a obtain snap where b: "fetch_body e ?c1 = Inr snap" and r: "r = Some snap"
    by (auto simp: fetch_cycle_def Let_def split: sum.splits exn.splits)
  from b obtain checked where chk: "check_last_delivery (env_today e) ?c1 = Inr checked"
    and l: "last_delivery_date snap = checked"
    by (auto simp: fetch_body_def split: http_reply.splits payload.splits list.splits
        element.splits option.splits if_splits sum.splits)
  have "data ?c1 = data c" by simp
  with check_last_delivery_unchanged [OF chk]
  have "checked = (case data c of None \<Rightarrow> None | Some s \<Rightarrow> last_delivery_date s)" by simp
  moreover from b have "update_interval (coord (fetch_cycle e c)) = DEFAULT_UPDATE_INTERVAL"
    by (simp add: fetch_cycle_def Let_def)
  ultimately show ?thesis using r l by simp
qed

lemma update_cases:
  "async_update_data e c =
     (if skip_first_update c then
        \<lparr>result = Inr (data c),
         coord = c\<lparr>skip_first_update := False, first_update := False\<rparr>, api_calls = 0\<rparr>
      else fetch_cycle e c)"
  by (simp add: async_update_data_def)

lemma refresh_failed_data:
  "isl (result (async_update_data e c)) \<Longrightarrow> data (async_refresh e c) = data c"
  by (cases "result (async_update_data e c)") (simp_all add: async_refresh_def Let_def coord_data)

lemma refresh_bad_reply_data:
  "\<not> reply_is_success (env_reply e) \<Longrightarrow> data (async_refresh e c) = data c"
proof (cases "skip_first_update c")
  case True
  then show ?thesis by (simp add: async_refresh_def Let_def update_cases)
next
  case False
  assume "\<not> reply_is_success (env_reply e)"
  then have "isl (fetch_body e (if first_update c then c\<lparr>first_update := False\<rparr> else c))"
    by (rule fetch_body_failure)
  then have "isl (result (fetch_cycle e c))"
    by (simp only: fetch_cycle_result)
  with False have "isl (result (async_update_data e c))" by (simp add: update_cases)
  then show ?thesis by (rule refresh_failed_data)
qed

lemma refresh_keeps_last_delivery:
  assumes "data c = Some s" and "last_delivery_date s = Some d"
  shows "\<exists>s'. data (async_refresh e c) = Some s' \<and> last_delivery_date s' = Some d"
proof (cases "result (async_update_data e c)")
  case (Inl err)
  then have "data (async_refresh e c) = data c" by (simp add: refresh_failed_data)
  with assms show ?thesis by simp
next
  case (Inr r)
  show ?thesis
  proof (cases "skip_first_update c")
    case True
    with assms show ?thesis by (simp add: async_refresh_def Let_def update_cases)
  next
    case False
    with Inr have "result (fetch_cycle e c) = Inr r" by (simp add: update_cases)
    from fetch_cycle_ok [OF this] assms obtain snap
      where "r = Some snap" "last_delivery_date snap = Some d" by auto
    with Inr show ?thesis by (simp add: async_refresh_def Let_def)
  qed
qed

lemma run_cycles_Cons: "run_cycles (e # es) c = run_cycles es (async_refresh e c)"
  by (simp add: run_cycles_def)

lemma run_keeps_last_delivery:
  "data c = Some s \<Longrightarrow> last_delivery_date s = Some d \<Longrightarrow>
     \<exists>s'. data (run_cycles es c) = Some s' \<and> last_delivery_date s' = Some d"
proof (induction es arbitrary: c s)
  case Nil
  then show ?case by (simp add: run_cycles_def)
next
  case (Cons e es)
  from refresh_keeps_last_delivery [OF Cons.prems, of e] obtain s1
    where "data (async_refresh e c) = Some s1" "last_delivery_date s1 = Some d" by blast
  from Cons.IH [OF this] show ?case by (simp add: run_cycles_Cons)
qed

lemma run_failures_keep_data:
  "\<forall>e \<in> set es. \<not> reply_is_success (env_reply e) \<Longrightarrow> data (run_cycles es c) = data c"
proof (induction es arbitrary: c)
  case Nil
  then show ?case by (simp add: run_cycles_def)
next
  case (Cons e es)
  then have "data (run_cycles es (async_refresh e c)) = data (async_refresh e c)" by simp
  also from Cons.prems have "\<dots> = data c" by (simp add: refresh_bad_reply_data)
  finally show ?case by (simp add: run_cycles_Cons)
qed

section \<open>Staleness\<close>

text \<open>
  C3, as the spec states it: whenever the cached snapshot is older than the base interval
  the cycle fetches, in every phase, the seeded one included. A coordinator seeded at
  time 0 whose first cycle starts one second after the base interval has passed is stale
  and in the seeded phase, and its cycle sends no request and returns the cached snapshot.
\<close>

theorem stale_seeded_skips_fetch:
  "data seeded = Some \<lparr>delivery_dates = [pystr ''2025-06-01''], last_updated = Some 0,
                        last_delivery_date = None\<rparr>
   \<and> env_now late_cycle - 0 > DEFAULT_UPDATE_INTERVAL
   \<and> phase seeded = Seeded
   \<and> api_calls (async_update_data late_cycle seeded) = 0
   \<and> result (async_update_data late_cycle seeded) = Inr (data seeded)"
  by (simp add: scenario_defs update_cases phase_def seconds_def)

text \<open>
  C3, amended: if the cached snapshot is older than the base interval and the first-fetch
  skip is not pending, the cycle sends a request to the endpoint; while the skip is
  pending the cycle sends none and returns the cached snapshot, stale or not.
\<close>

theorem stale_forces_fetch_unless_skip_pending:
  assumes "data c = Some s" and "last_updated s = Some u"
    and "env_now e - u > DEFAULT_UPDATE_INTERVAL"
  shows "is_data_stale (env_now e) c
       \<and> (\<not> skip_first_update c \<longrightarrow> api_calls (async_update_data e c) = 1)
       \<and> (skip_first_update c \<longrightarrow>
            api_calls (async_update_data e c) = 0
            \<and> result (async_update_data e c) = Inr (data c))"
  using assms by (simp add: is_data_stale_def update_cases fetch_cycle_api_calls)

theorem stale_forces_fetch_unless_skip_pending_witness:
  "api_calls (async_update_data late_cycle (holding [pystr ''2025-06-01''])) = 1
   \<and> api_calls (async_update_data late_cycle seeded) = 0"
proof -
  let ?s = "\<lparr>delivery_dates = [pystr ''2025-06-01''], last_updated = Some (0::int),
             last_delivery_date = None :: pystr option\<rparr>"
  have d1: "data (holding [pystr ''2025-06-01'']) = Some ?s" by (simp add: scenario_defs)
  have d2: "data seeded = Some ?s" by (simp add: scenario_defs)
  have u: "last_updated ?s = Some 0" by simp
  have t: "env_now late_cycle - 0 > DEFAULT_UPDATE_INTERVAL"
    by (simp add: scenario_defs seconds_def)
  have n: "\<not> skip_first_update (holding [pystr ''2025-06-01''])" by (simp add: scenario_defs)
  have p: "skip_first_update seeded" by (simp add: scenario_defs)
  from stale_forces_fetch_unless_skip_pending [OF d1 u t] n
       stale_forces_fetch_unless_skip_pending [OF d2 u t] p
  show ?thesis by blast
qed

section \<open>The steady-state wait\<close>

text \<open>
  C4. After a successful fetch the wait for the next cycle lies within the base interval
  plus or minus the largest jitter, that is between 12 hours less 2 minutes and 12 hours
  plus 2 minutes. In \<open>posti_delivery_dates\<close> every successful fetch sets the wait to the
  base interval itself. In the earlier coordinator every fetch cycle after the first
  sets it to the base interval plus the jitter drawn, for every value that
  \<open>random.randint\<close> may return between its bounds.
\<close>

theorem steady_wait_within_jitter:
  "(result (async_update_data e c) = Inr r \<and> api_calls (async_update_data e c) = 1 \<longrightarrow>
      within_jitter (update_interval (coord (async_update_data e c))))
   \<and> (\<not> first_update c \<and> \<not> skip_first_update c
       \<and> - int_total_seconds UPDATE_JITTER_MAX
           \<le> lenv_randint le (- int_total_seconds UPDATE_JITTER_MAX)
                (int_total_seconds UPDATE_JITTER_MAX)
       \<and> lenv_randint le (- int_total_seconds UPDATE_JITTER_MAX)
           (int_total_seconds UPDATE_JITTER_MAX) \<le> int_total_seconds UPDATE_JITTER_MAX \<longrightarrow>
      within_jitter (update_interval (coord (legacy_async_update_data le c))))
   \<and> (within_jitter w \<longleftrightarrow> seconds (12 * 3600 - 2 * 60) \<le> w \<and> w \<le> seconds (12 * 3600 + 2 * 60))"
proof -
  have main: "within_jitter (update_interval (coord (async_update_data e c)))"
    if "result (async_update_data e c) = Inr r" "api_calls (async_update_data e c) = 1"
  proof -
    from that(2) have ns: "\<not> skip_first_update c" by (auto simp: update_cases split: if_splits)
    with that(1) have "result (fetch_cycle e c) = Inr r" by (simp add: update_cases)
    from fetch_cycle_ok [OF this] ns
    have "update_interval (coord (async_update_data e c)) = DEFAULT_UPDATE_INTERVAL"
      by (simp add: update_cases)
    then show ?thesis by (simp add: within_jitter_def interval_defs)
  qed
  have legacy: "within_jitter (update_interval (coord (legacy_async_update_data le c)))"
    if "\<not> first_update c" "\<not> skip_first_update c"
      "- int_total_seconds UPDATE_JITTER_MAX
           \<le> lenv_randint le (- int_total_seconds UPDATE_JITTER_MAX)
                (int_total_seconds UPDATE_JITTER_MAX)"
      "lenv_randint le (- int_total_seconds UPDATE_JITTER_MAX)
           (int_total_seconds UPDATE_JITTER_MAX) \<le> int_total_seconds UPDATE_JITTER_MAX"
  proof -
    define j where "j = lenv_randint le (- int_total_seconds UPDATE_JITTER_MAX)
           (int_total_seconds UPDATE_JITTER_MAX)"
    have i: "update_interval (coord (legacy_async_update_data le c))
               = DEFAULT_UPDATE_INTERVAL + seconds j"
      using that(1,2)
      by (simp add: legacy_async_update_data_def Let_def j_def split: sum.splits exn.splits)
    from that(3,4) have "- 120 \<le> j" "j \<le> 120" by (simp_all add: j_def interval_defs)
    with i show ?thesis by (simp add: within_jitter_def interval_defs)
  qed
  have num: "within_jitter w \<longleftrightarrow> seconds (12 * 3600 - 2 * 60) \<le> w \<and> w \<le> seconds (12 * 3600 + 2 * 60)"
    by (simp add: within_jitter_def interval_defs)
  from main legacy num show ?thesis by blast
qed

theorem steady_wait_within_jitter_witness:
  "within_jitter (update_interval (coord (async_update_data late_cycle (holding [pystr ''2025-06-01'']))))
   \<and> within_jitter (update_interval (coord (legacy_async_update_data legacy_failing
                                               (holding [pystr ''2025-06-01'']))))
   \<and> update_interval (coord (legacy_async_update_data legacy_failing
                                (holding [pystr ''2025-06-01''])))
       = seconds (12 * 3600 + 2 * 60)"
proof -
  let ?c = "holding [pystr ''2025-06-01'']"
  let ?s = "\<lparr>delivery_dates = [pystr ''2025-06-01''], last_updated = Some (seconds 43202),
             last_delivery_date = None :: pystr option\<rparr>"
  have r: "result (async_update_data late_cycle ?c) = Inr (Some ?s)"
    by (simp add: cycle_defs scenario_defs strptime_2025_06_01 interval_defs)
  have a: "api_calls (async_update_data late_cycle ?c) = 1"
    by (simp add: update_cases fetch_cycle_api_calls scenario_defs)
  have f: "\<not> first_update ?c" "\<not> skip_first_update ?c" by (simp_all add: scenario_defs)
  have lo: "- int_total_seconds UPDATE_JITTER_MAX
           \<le> lenv_randint legacy_failing (- int_total_seconds UPDATE_JITTER_MAX)
                (int_total_seconds UPDATE_JITTER_MAX)"
    by (simp add: scenario_defs interval_defs)
  have hi: "lenv_randint legacy_failing (- int_total_seconds UPDATE_JITTER_MAX)
           (int_total_seconds UPDATE_JITTER_MAX) \<le> int_total_seconds UPDATE_JITTER_MAX"
    by (simp add: scenario_defs)
  have v: "update_interval (coord (legacy_async_update_data legacy_failing ?c))
       = seconds (12 * 3600 + 2 * 60)"
    by (simp add: legacy_async_update_data_def legacy_fetch_body_def scenario_defs interval_defs)
  from steady_wait_within_jitter [of late_cycle ?c "Some ?s" legacy_failing] r a f lo hi v
  show ?thesis by blast
qed

section \<open>Fetch failures\<close>

text \<open>
  C5, as the spec states it: after every fetch failure the wait is a fixed retry interval,
  shorter than the base interval, with no jitter. The earlier coordinator has no retry
  interval: when its request meets a transport error in a steady cycle whose jitter draw
  is 120 seconds, the wait left for the next cycle is the base interval plus 120 seconds.
\<close>

theorem legacy_failure_keeps_jittered_wait:
  "result (legacy_async_update_data legacy_failing (holding [pystr ''2025-06-01'']))
     = Inl Error_communicating
   \<and> update_interval (coord (legacy_async_update_data legacy_failing
                                (holding [pystr ''2025-06-01''])))
     = DEFAULT_UPDATE_INTERVAL + seconds 120
   \<and> \<not> DEFAULT_UPDATE_INTERVAL + seconds 120 < DEFAULT_UPDATE_INTERVAL
   \<and> DEFAULT_UPDATE_INTERVAL + seconds 120 \<noteq> RETRY_UPDATE_INTERVAL"
  by (simp add: legacy_async_update_data_def legacy_fetch_body_def scenario_defs interval_defs)

lemma legacy_fetch_body_failure:
  "\<not> reply_is_success (lenv_reply le) \<Longrightarrow> isl (legacy_fetch_body le)"
  by (auto simp: legacy_fetch_body_def reply_is_success_def
      split: http_reply.splits payload.splits list.splits element.splits option.splits)

lemma legacy_result_failed:
  "\<not> skip_first_update c \<Longrightarrow>
     isl (result (legacy_async_update_data le c)) = isl (legacy_fetch_body le)"
  by (simp add: legacy_async_update_data_def Let_def split: sum.splits exn.splits)

lemma legacy_failed_not_skip:
  "isl (result (legacy_async_update_data le c)) \<Longrightarrow> \<not> skip_first_update c"
  by (auto simp: legacy_async_update_data_def Let_def)

lemma legacy_fetch_interval:
  "\<not> skip_first_update c \<Longrightarrow>
     update_interval (coord (legacy_async_update_data le c))
       = DEFAULT_UPDATE_INTERVAL
         + seconds (if first_update c
                    then lenv_randint le 0 (int_total_seconds INITIAL_RANDOM_OFFSET_MAX)
                    else lenv_randint le (- int_total_seconds UPDATE_JITTER_MAX)
                           (int_total_seconds UPDATE_JITTER_MAX))"
  by (simp add: legacy_async_update_data_def Let_def split: sum.splits exn.splits)

text \<open>
  C5, amended. A fetch fails when the answer is no success in the sense of the spec's
  fetcher and of the code's own checks: a transport error or any other exception, a status
  other than 200, or a body that is undecodable, falsy or not a list, empty, or whose first
  element is no object or holds no or an empty list of delivery dates (the coordinator does
  not look at \<open>postalCode\<close>). In \<open>posti_delivery_dates\<close>, every cycle that fetches and meets
  such a failure raises \<open>UpdateFailed\<close>; every cycle that raises it leaves the wait at the
  retry interval, with nothing drawn at random, and the coordinator in the failing phase;
  and the retry interval is shorter than the base interval. In the earlier coordinator
  every cycle that fetches and meets such a failure raises \<open>UpdateFailed\<close> too, and after
  every cycle that raises it the wait is the base interval plus the value drawn at the
  start of that cycle: the initial offset in the first cycle, the jitter afterwards.
\<close>

theorem failure_sets_retry_interval:
  "(\<not> skip_first_update c \<and> \<not> reply_is_success (env_reply e) \<longrightarrow>
      isl (result (async_update_data e c)))
   \<and> (isl (result (async_update_data e c)) \<longrightarrow>
        update_interval (coord (async_update_data e c)) = RETRY_UPDATE_INTERVAL
        \<and> update_interval (async_refresh e c) = RETRY_UPDATE_INTERVAL
        \<and> phase (async_refresh e c) = Failing)
   \<and> RETRY_UPDATE_INTERVAL < DEFAULT_UPDATE_INTERVAL
   \<and> (\<not> skip_first_update c \<and> \<not> reply_is_success (lenv_reply le) \<longrightarrow>
        isl (result (legacy_async_update_data le c)))
   \<and> (isl (result (legacy_async_update_data le c)) \<longrightarrow>
        update_interval (coord (legacy_async_update_data le c))
          = DEFAULT_UPDATE_INTERVAL
            + seconds (if first_update c
                       then lenv_randint le 0 (int_total_seconds INITIAL_RANDOM_OFFSET_MAX)
                       else lenv_randint le (- int_total_seconds UPDATE_JITTER_MAX)
                              (int_total_seconds UPDATE_JITTER_MAX))
        \<and> update_interval (legacy_async_refresh le c)
          = update_interval (coord (legacy_async_update_data le c))
        \<and> phase (legacy_async_refresh le c) = Failing)"
proof -
  have fails: "isl (result (async_update_data e c))"
    if "\<not> skip_first_update c" "\<not> reply_is_success (env_reply e)"
  proof -
    from that(2)
    have "isl (fetch_body e (if first_update c then c\<lparr>first_update := False\<rparr> else c))"
      by (rule fetch_body_failure)
    then have "isl (result (fetch_cycle e c))" by (simp only: fetch_cycle_result)
    with that(1) show ?thesis by (simp add: update_cases)
  qed
  have retry: "update_interval (coord (async_update_data e c)) = RETRY_UPDATE_INTERVAL
        \<and> update_interval (async_refresh e c) = RETRY_UPDATE_INTERVAL
        \<and> phase (async_refresh e c) = Failing"
    if f: "isl (result (async_update_data e c))"
  proof -
    from f have ns: "\<not> skip_first_update c" by (auto simp: update_cases split: if_splits)
    with f have "isl (result (fetch_cycle e c))" by (simp add: update_cases)
    from fetch_cycle_failed [OF this] ns
    have i: "update_interval (coord (async_update_data e c)) = RETRY_UPDATE_INTERVAL"
      by (simp add: update_cases)
    from f obtain err where "result (async_update_data e c) = Inl err"
      by (cases "result (async_update_data e c)") auto
    with i show ?thesis by (simp add: async_refresh_def Let_def phase_def)
  qed
  have lt: "RETRY_UPDATE_INTERVAL < DEFAULT_UPDATE_INTERVAL" by (simp add: interval_defs)
  have lfails: "isl (result (legacy_async_update_data le c))"
    if "\<not> skip_first_update c" "\<not> reply_is_success (lenv_reply le)"
    using that by (simp add: legacy_result_failed legacy_fetch_body_failure)
  have lwait: "update_interval (coord (legacy_async_update_data le c))
          = DEFAULT_UPDATE_INTERVAL
            + seconds (if first_update c
                       then lenv_randint le 0 (int_total_seconds INITIAL_RANDOM_OFFSET_MAX)
                       else lenv_randint le (- int_total_seconds UPDATE_JITTER_MAX)
                              (int_total_seconds UPDATE_JITTER_MAX))
        \<and> update_interval (legacy_async_refresh le c)
          = update_interval (coord (legacy_async_update_data le c))
        \<and> phase (legacy_async_refresh le c) = Failing"
    if f: "isl (result (legacy_async_update_data le c))"
  proof -
    from f have "\<not> skip_first_update c" by (rule legacy_failed_not_skip)
    then have i: "update_interval (coord (legacy_async_update_data le c))
          = DEFAULT_UPDATE_INTERVAL
            + seconds (if first_update c
                       then lenv_randint le 0 (int_total_seconds INITIAL_RANDOM_OFFSET_MAX)
                       else lenv_randint le (- int_total_seconds UPDATE_JITTER_MAX)
                              (int_total_seconds UPDATE_JITTER_MAX))"
      by (rule legacy_fetch_interval)
    from f obtain err where "result (legacy_async_update_data le c) = Inl err"
      by (cases "result (legacy_async_update_data le c)") auto
    then have "update_interval (legacy_async_refresh le c)
          = update_interval (coord (legacy_async_update_data le c))
        \<and> phase (legacy_async_refresh le c) = Failing"
      by (simp add: legacy_async_refresh_def Let_def phase_def)
    with i show ?thesis by simp
  qed
  from fails retry lt lfails lwait show ?thesis by blast
qed

theorem failure_sets_retry_interval_witness:
  "result (async_update_data failing_cycle (holding [pystr ''2025-06-01'']))
     = Inl Unexpected_error
   \<and> update_interval (async_refresh failing_cycle (holding [pystr ''2025-06-01'']))
     = seconds 3600
   \<and> phase (async_refresh failing_cycle (holding [pystr ''2025-06-01''])) = Failing
   \<and> isl (result (legacy_async_update_data legacy_failing (holding [pystr ''2025-06-01''])))
   \<and> update_interval (legacy_async_refresh legacy_failing (holding [pystr ''2025-06-01'']))
     = seconds (12 * 3600 + 120)
   \<and> update_interval (legacy_async_refresh legacy_failing
                         (init_coordinator (pystr ''00100'') None))
     = seconds (12 * 3600 + 1800)"
proof -
  let ?c = "holding [pystr ''2025-06-01'']"
  let ?fresh = "init_coordinator (pystr ''00100'') None"
  have n: "\<not> skip_first_update ?c" "\<not> skip_first_update ?fresh" by (simp_all add: scenario_defs)
  have b: "\<not> reply_is_success (env_reply failing_cycle)"
    by (simp add: scenario_defs reply_is_success_def)
  have lb: "\<not> reply_is_success (lenv_reply legacy_failing)"
    by (simp add: scenario_defs reply_is_success_def)
  have r: "result (async_update_data failing_cycle ?c) = Inl Unexpected_error"
    by (simp add: cycle_defs scenario_defs interval_defs)
  have fu: "\<not> first_update ?c" "first_update ?fresh" by (simp_all add: scenario_defs)
  have dr: "lenv_randint legacy_failing = (\<lambda>a b. b)" by (simp add: scenario_defs)
  note i1 = failure_sets_retry_interval [of ?c failing_cycle legacy_failing]
  note i2 = failure_sets_retry_interval [of ?fresh failing_cycle legacy_failing]
  from i1 n(1) b r
  have main: "update_interval (async_refresh failing_cycle ?c) = RETRY_UPDATE_INTERVAL
      \<and> phase (async_refresh failing_cycle ?c) = Failing"
    by simp
  from i1 n(1) lb have l1: "isl (result (legacy_async_update_data legacy_failing ?c))"
    by blast
  with i1 fu(1) have w1: "update_interval (legacy_async_refresh legacy_failing ?c)
      = DEFAULT_UPDATE_INTERVAL
        + seconds (lenv_randint legacy_failing (- int_total_seconds UPDATE_JITTER_MAX)
                     (int_total_seconds UPDATE_JITTER_MAX))"
    by simp
  from i2 n(2) lb have l2: "isl (result (legacy_async_update_data legacy_failing ?fresh))"
    by blast
  with i2 fu(2) have w2: "update_interval (legacy_async_refresh legacy_failing ?fresh)
      = DEFAULT_UPDATE_INTERVAL
        + seconds (lenv_randint legacy_failing 0 (int_total_seconds INITIAL_RANDOM_OFFSET_MAX))"
    by simp
  from w1 have v1: "update_interval (legacy_async_refresh legacy_failing ?c)
      = seconds (12 * 3600 + 120)"
    unfolding dr by (simp add: interval_defs)
  from w2 have v2: "update_interval (legacy_async_refresh legacy_failing ?fresh)
      = seconds (12 * 3600 + 1800)"
    unfolding dr by (simp add: interval_defs)
  from r main l1 v1 v2 show ?thesis by (simp add: RETRY_UPDATE_INTERVAL_def)
qed

section \<open>The last delivery date, once set\<close>

text \<open>
  C6. Once the snapshot's last delivery date is set, no run of update cycles, whatever
  each of them meets (a skip, a successful fetch, a failure), leaves the snapshot
  without one.
\<close>

theorem last_delivery_date_never_reverts:
  assumes "data c = Some s" and "last_delivery_date s = Some d"
  shows "\<exists>s' d'. data (run_cycles es c) = Some s' \<and> last_delivery_date s' = Some d'"
  using run_keeps_last_delivery [OF assms, of es] by blast

theorem last_delivery_date_never_reverts_witness:
  "\<exists>s' d'. data (run_cycles [failing_cycle, scenario_C_second, late_cycle] delivered) = Some s'
           \<and> last_delivery_date s' = Some d'"
proof -
  let ?s = "\<lparr>delivery_dates = [pystr ''2025-06-01''], last_updated = Some (0::int),
             last_delivery_date = Some (pystr ''2025-05-28'')\<rparr>"
  have d: "data delivered = Some ?s" by (simp add: scenario_defs)
  have l: "last_delivery_date ?s = Some (pystr ''2025-05-28'')" by simp
  from last_delivery_date_never_reverts [OF d l] show ?thesis .
qed

section \<open>The snapshot through failures\<close>

text \<open>
  C7. A cycle that fails leaves the cached snapshot as it was: \<open>_async_update_data\<close>
  does not touch \<open>data\<close> and the refresh stores nothing when \<open>UpdateFailed\<close> is raised.
  This holds for every cycle that raises, for every answer of the endpoint that is a
  failure in the spec's sense, and for the earlier coordinator as well.
\<close>

theorem failed_cycle_keeps_snapshot:
  "(isl (result (async_update_data e c)) \<longrightarrow>
      data (async_refresh e c) = data c
      \<and> data (coord (async_update_data e c)) = data c)
   \<and> (\<not> reply_is_success (env_reply e) \<longrightarrow> data (async_refresh e c) = data c)
   \<and> (isl (result (legacy_async_update_data le c)) \<longrightarrow>
        data (legacy_async_refresh le c) = data c)"
proof -
  have legacy: "data (legacy_async_refresh le c) = data c"
    if "isl (result (legacy_async_update_data le c))"
  proof -
    have "data (coord (legacy_async_update_data le c)) = data c"
      by (simp add: legacy_async_update_data_def Let_def split: sum.splits exn.splits)
    with that show ?thesis
      by (cases "result (legacy_async_update_data le c)")
         (simp_all add: legacy_async_refresh_def Let_def)
  qed
  from refresh_failed_data [of e c] refresh_bad_reply_data [of e c] coord_data [of e c] legacy
  show ?thesis by blast
qed

theorem failed_cycle_keeps_snapshot_witness:
  "isl (result (async_update_data failing_cycle delivered))
   \<and> data (async_refresh failing_cycle delivered)
     = Some \<lparr>delivery_dates = [pystr ''2025-06-01''], last_updated = Some 0,
             last_delivery_date = Some (pystr ''2025-05-28'')\<rparr>
   \<and> data (legacy_async_refresh legacy_failing delivered)
     = Some \<lparr>delivery_dates = [pystr ''2025-06-01''], last_updated = Some 0,
             last_delivery_date = Some (pystr ''2025-05-28'')\<rparr>"
proof -
  have r: "isl (result (async_update_data failing_cycle delivered))"
    by (simp add: cycle_defs scenario_defs)
  have l: "isl (result (legacy_async_update_data legacy_failing delivered))"
    by (simp add: legacy_async_update_data_def legacy_fetch_body_def scenario_defs)
  have d: "data delivered
     = Some \<lparr>delivery_dates = [pystr ''2025-06-01''], last_updated = Some 0,
             last_delivery_date = Some (pystr ''2025-05-28'')\<rparr>"
    by (simp add: scenario_defs)
  from failed_cycle_keeps_snapshot [of failing_cycle delivered legacy_failing] r l d
  show ?thesis by simp
qed

section \<open>Availability\<close>

text \<open>
  C8. The sensor is available exactly when the last update succeeded or the coordinator
  holds a snapshot; with a snapshot it stays available, and the snapshot stays the same,
  through any number of consecutive failures.
\<close>

theorem available_iff:
  "(available c \<longleftrightarrow> last_update_success c \<or> data c \<noteq> None)
   \<and> (data c \<noteq> None \<and> (\<forall>e \<in> set es. \<not> reply_is_success (env_reply e)) \<longrightarrow>
        available (run_cycles es c) \<and> data (run_cycles es c) = data c)"
proof -
  have "available (run_cycles es c) \<and> data (run_cycles es c) = data c"
    if "data c \<noteq> None" "\<forall>e \<in> set es. \<not> reply_is_success (env_reply e)"
    using run_failures_keep_data [OF that(2), of c] that(1) by (simp add: available_def)
  then show ?thesis by (auto simp: available_def)
qed

theorem available_iff_witness:
  "available (run_cycles [failing_cycle, failing_cycle, failing_cycle] delivered)
   \<and> \<not> last_update_success (run_cycles [failing_cycle, failing_cycle, failing_cycle] delivered)
   \<and> data (run_cycles [failing_cycle, failing_cycle, failing_cycle] delivered) = data delivered"
proof -
  have d: "data delivered \<noteq> None" by (simp add: scenario_defs)
  have f: "\<forall>e \<in> set [failing_cycle, failing_cycle, failing_cycle].
             \<not> reply_is_success (env_reply e)"
    by (simp add: scenario_defs reply_is_success_def)
  have n: "\<not> last_update_success (run_cycles [failing_cycle, failing_cycle, failing_cycle] delivered)"
    by (simp add: cycle_defs scenario_defs)
  from available_iff [of delivered "[failing_cycle, failing_cycle, failing_cycle]"] d f n
  show ?thesis by blast
qed

section \<open>The postal code\<close>

lemma digit_value_arabic_indic: "1632 \<le> c \<Longrightarrow> c \<le> 1641 \<Longrightarrow> digit_value c = Some (c - 1632)"
  by (simp add: digit_value_def unicode_decimal_zeros_def)

lemma strip_arabic_indic: "strip arabic_indic_12345 = arabic_indic_12345"
  by (simp add: strip_def arabic_indic_12345_def is_space_def)

lemma re_match_arabic_indic: "re_match_postal arabic_indic_12345"
  by (simp add: re_match_postal_def arabic_indic_12345_def re_digit_def digit_value_arabic_indic)

lemma validate_input_invalid:
  "validate_input reply inp = Inl InvalidPostalCode \<longleftrightarrow> \<not> re_match_postal (strip inp)"
  by (auto simp: validate_input_def Let_def split: sum.splits flow_exn.splits)

lemma strip_last_not_space: "strip s \<noteq> [] \<Longrightarrow> \<not> is_space (last (strip s))"
proof -
  assume a: "strip s \<noteq> []"
  let ?ys = "dropWhile is_space (rev (dropWhile is_space s))"
  from a have ne: "?ys \<noteq> []" by (simp add: strip_def)
  then have "\<not> is_space (hd ?ys)" by (rule hd_dropWhile)
  moreover from ne have "last (strip s) = hd ?ys" by (simp add: strip_def last_rev)
  ultimately show ?thesis by simp
qed

lemma re_match_postal_strip:
  "re_match_postal (strip s) \<longleftrightarrow> length (strip s) = 5 \<and> list_all re_digit (strip s)"
proof -
  have "strip s ! 5 \<noteq> 10" if l: "length (strip s) = 6"
  proof -
    from l have ne: "strip s \<noteq> []" by auto
    from l ne have "last (strip s) = strip s ! 5" by (simp add: last_conv_nth)
    with strip_last_not_space [OF ne] show ?thesis by (auto simp: is_space_def)
  qed
  then show ?thesis by (auto simp: re_match_postal_def)
qed

lemma re_digit_ascii: "c < 128 \<Longrightarrow> re_digit c = ascii_digit c"
  by (auto simp: re_digit_def digit_value_def unicode_decimal_zeros_def ascii_digit_def)

lemma set_strip: "set (strip s) \<subseteq> set s"
  by (auto simp: strip_def dest!: set_dropWhileD)

text \<open>
  C10, as stated: \<open>validate_input\<close> raises \<open>InvalidPostalCode\<close> exactly when the stripped
  input is not five ASCII digits. The pattern \<open>\d\<close> of a \<open>str\<close> regular expression accepts
  every Unicode decimal digit: the five Arabic-Indic digits of 12345 are no ASCII digits,
  yet the format check lets them through, the request is sent, and with a good answer
  from the endpoint the flow creates the entry.
\<close>

theorem unicode_digits_pass_validation:
  "strip arabic_indic_12345 = arabic_indic_12345
   \<and> \<not> list_all ascii_digit arabic_indic_12345
   \<and> validate_input Client_error arabic_indic_12345 = Inl CannotConnect
   \<and> async_step_user (reply_dates [pystr ''2025-06-01'']) 0 [] (Some arabic_indic_12345)
     = Create_entry (pystr ''Posti '' @ arabic_indic_12345) arabic_indic_12345
         \<lparr>seed_delivery_dates = Some [pystr ''2025-06-01''], seed_last_updated = 0\<rparr>"
  by (simp add: strip_arabic_indic validate_input_def validate_body_def re_match_arabic_indic
      async_step_user_def reply_dates_def)
     (simp add: arabic_indic_12345_def ascii_digit_def)

text \<open>
  C10, amended: \<open>validate_input\<close> raises \<open>InvalidPostalCode\<close> exactly when the input,
  stripped of surrounding whitespace, is not five decimal digits in the sense of \<open>\d\<close>
  (Unicode decimal digits; for an input of ASCII characters only, the ASCII digits); and
  when it raises, the flow shows the form again with the error and creates no entry.
\<close>

theorem invalid_postal_code_iff:
  "(validate_input reply inp = Inl InvalidPostalCode
      \<longleftrightarrow> \<not> (length (strip inp) = 5 \<and> list_all re_digit (strip inp)))
   \<and> ((\<forall>c \<in> set inp. c < 128) \<longrightarrow>
        (validate_input reply inp = Inl InvalidPostalCode
           \<longleftrightarrow> \<not> (length (strip inp) = 5 \<and> list_all ascii_digit (strip inp))))
   \<and> (validate_input reply inp = Inl InvalidPostalCode \<longrightarrow>
        async_step_user reply now configured (Some inp)
          = Show_form (Some ''invalid_postal_code''))"
proof -
  have a: "validate_input reply inp = Inl InvalidPostalCode
      \<longleftrightarrow> \<not> (length (strip inp) = 5 \<and> list_all re_digit (strip inp))"
    by (simp only: validate_input_invalid re_match_postal_strip)
  have b: "list_all re_digit (strip inp) = list_all ascii_digit (strip inp)"
    if "\<forall>c \<in> set inp. c < 128"
  proof -
    from that set_strip [of inp] have "\<forall>c \<in> set (strip inp). c < 128" by blast
    then show ?thesis by (auto simp: list_all_iff re_digit_ascii)
  qed
  have c: "async_step_user reply now configured (Some inp)
          = Show_form (Some ''invalid_postal_code'')"
    if "validate_input reply inp = Inl InvalidPostalCode"
    using that by (simp add: async_step_user_def)
  from a b c show ?thesis by auto
qed

theorem invalid_postal_code_iff_witness:
  "validate_input Client_error (pystr '' 0010 '') = Inl InvalidPostalCode
   \<and> validate_input Client_error (pystr '' 00100 '') \<noteq> Inl InvalidPostalCode
   \<and> async_step_user Client_error 0 [] (Some (pystr '' 0010 ''))
       = Show_form (Some ''invalid_postal_code'')"
proof -
  have s1: "strip (pystr '' 0010 '') = pystr ''0010''"
    by (simp add: strip_def pystr_def is_space_def)
  have s2: "strip (pystr '' 00100 '') = pystr ''00100''"
    by (simp add: strip_def pystr_def is_space_def)
  have a1: "\<forall>c \<in> set (pystr '' 0010 ''). c < 128" by (simp add: pystr_def)
  have a2: "\<forall>c \<in> set (pystr '' 00100 ''). c < 128" by (simp add: pystr_def)
  have l1: "length (pystr ''0010'') \<noteq> 5" by (simp add: pystr_def)
  have l2: "length (pystr ''00100'') = 5 \<and> list_all ascii_digit (pystr ''00100'')"
    by (simp add: pystr_def ascii_digit_def)
  from invalid_postal_code_iff [of Client_error "pystr '' 0010 ''" 0 "[]"]
       invalid_postal_code_iff [of Client_error "pystr '' 00100 ''" 0 "[]"]
       a1 a2 l1 l2
  show ?thesis unfolding s1 s2 by blast
qed

end
